theory Spec2Isabelle
  imports Main "HOL-Library.Word"
begin

section \<open>Strings of the source language\<close>

text \<open>
  Python strings are modelled as \<open>string\<close>. The characters of the model are the code
  points below 256; the level names, environment markers and hexadecimal digits the
  library compares against are all ASCII. A string is falsy exactly when it is empty.
\<close>

definition hexdigits :: string where
  "hexdigits = ''0123456789abcdef''"

definition hex_digit :: "nat \<Rightarrow> char" where
  "hex_digit d = hexdigits ! (d mod 16)"

text \<open>\<open>'%0wx' % n\<close> for \<open>n < 16 ^ w\<close>: the \<open>w\<close> lowest hexadecimal digits of \<open>n\<close>.\<close>

fun hex_fixed :: "nat \<Rightarrow> nat \<Rightarrow> string" where
  "hex_fixed 0 n = []"
| "hex_fixed (Suc w) n = hex_fixed w (n div 16) @ [hex_digit n]"

text \<open>
  \<open>uuid.UUID.hex\<close> is \<open>'%032x' % self.int\<close>, where \<open>int\<close> is the 128-bit value of
  the identifier. The value drawn by \<open>uuid.uuid4()\<close> is an argument of the model.
\<close>

definition uuid_hex :: "128 word \<Rightarrow> string" where
  "uuid_hex u = hex_fixed 32 (unat u)"

section \<open>Trace context (core.py)\<close>

text \<open>
  \<open>_trace_id_var = ContextVar("trace_id", default="")\<close>: the slot of one logical
  context is a string, and an absent value reads as the empty string. Every operation
  takes the slot and returns the new slot; \<open>u\<close> is the identifier \<open>uuid.uuid4()\<close>
  returns when the operation calls it.
\<close>

type_synonym trace_ctx = string

definition new_trace_id :: "128 word \<Rightarrow> string" where
  "new_trace_id u = take 8 (uuid_hex u)"

definition get_trace_id :: "128 word \<Rightarrow> trace_ctx \<Rightarrow> string \<times> trace_ctx" where
  "get_trace_id u ctx =
     (if ctx = [] then (new_trace_id u, new_trace_id u) else (ctx, ctx))"

definition set_trace_id :: "string \<Rightarrow> trace_ctx \<Rightarrow> trace_ctx" where
  "set_trace_id trace_id ctx = trace_id"

definition reset_trace_id :: "128 word \<Rightarrow> trace_ctx \<Rightarrow> trace_ctx" where
  "reset_trace_id u ctx = new_trace_id u"

definition is_hex8 :: "string \<Rightarrow> bool" where
  "is_hex8 s = (length s = 8 \<and> list_all (\<lambda>c. c \<in> set hexdigits) s)"

section \<open>Character case and whitespace\<close>

text \<open>
  \<open>str.upper\<close>, \<open>str.lower\<close> and \<open>str.strip\<close> on the code points below 256.
  Lowercasing maps \<open>A-Z\<close> and the Latin-1 capitals (192-214, 216-222) 32 places up.
  Uppercasing maps \<open>a-z\<close> and the Latin-1 small letters (224-246, 248-254) 32 places
  down and the sharp s (223) to \<open>SS\<close>; the two letters whose capitals lie above 255
  (181 and 255) are left as they are, which no comparison with an ASCII name can tell
  apart. Whitespace is what \<open>str.isspace\<close> accepts below 256.
\<close>

definition lower_char :: "char \<Rightarrow> char" where
  "lower_char c =
     (let n = (of_char c :: nat) in
      if (65 \<le> n \<and> n \<le> 90) \<or> (192 \<le> n \<and> n \<le> 214) \<or> (216 \<le> n \<and> n \<le> 222)
      then char_of (n + 32) else c)"

definition py_lower :: "string \<Rightarrow> string" where
  "py_lower s = map lower_char s"

definition upper_char :: "char \<Rightarrow> string" where
  "upper_char c =
     (let n = (of_char c :: nat) in
      if (97 \<le> n \<and> n \<le> 122) \<or> (224 \<le> n \<and> n \<le> 246) \<or> (248 \<le> n \<and> n \<le> 254)
      then [char_of (n - 32)]
      else if n = 223 then ''SS'' else [c])"

definition py_upper :: "string \<Rightarrow> string" where
  "py_upper s = concat (map upper_char s)"

definition is_space :: "char \<Rightarrow> bool" where
  "is_space c =
     (let n = (of_char c :: nat) in
      (9 \<le> n \<and> n \<le> 13) \<or> (28 \<le> n \<and> n \<le> 32) \<or> n = 133 \<or> n = 160)"

definition py_strip :: "string \<Rightarrow> string" where
  "py_strip s = rev (dropWhile is_space (rev (dropWhile is_space s)))"

section \<open>Errors and dictionaries\<close>

datatype error = ValueError | TypeError

text \<open>\<open>list.index\<close>: the position of the first equal element, or \<open>ValueError\<close>.\<close>

fun index_of :: "'a list \<Rightarrow> 'a \<Rightarrow> error + nat" where
  "index_of [] x = Inl ValueError"
| "index_of (y # ys) x =
     (if y = x then Inr 0
      else (case index_of ys x of Inl e \<Rightarrow> Inl e | Inr i \<Rightarrow> Inr (Suc i)))"

text \<open>
  A dictionary is an association list in insertion order with distinct keys:
  \<open>d[k] = v\<close> replaces the value of a key that is present and appends a new key;
  \<open>d.get(k, dflt)\<close> reads it, with \<open>dflt\<close> for a missing key.
\<close>

fun dict_set :: "('k \<times> 'v) list \<Rightarrow> 'k \<Rightarrow> 'v \<Rightarrow> ('k \<times> 'v) list" where
  "dict_set [] k v = [(k, v)]"
| "dict_set ((k', v') # d) k v =
     (if k' = k then (k, v) # d else (k', v') # dict_set d k v)"

definition dict_get :: "('k \<times> 'v) list \<Rightarrow> 'k \<Rightarrow> 'v \<Rightarrow> 'v" where
  "dict_get d k dflt = (case map_of d k of None \<Rightarrow> dflt | Some v \<Rightarrow> v)"

section \<open>Adapters (adapters/base.py, console.py, json.py, gcp.py)\<close>

text \<open>
  The three adapter classes with the attributes their constructors store:
  \<open>ConsoleAdapter(level, colorize)\<close>, \<open>JSONAdapter(level)\<close> and
  \<open>GCPAdapter(level, project_id)\<close>.
\<close>

datatype adapter =
    ConsoleAdapter string bool
  | JSONAdapter string
  | GCPAdapter string "string option"

fun adapter_level :: "adapter \<Rightarrow> string" where
  "adapter_level (ConsoleAdapter lvl c) = lvl"
| "adapter_level (JSONAdapter lvl) = lvl"
| "adapter_level (GCPAdapter lvl p) = lvl"

definition levels :: "string list" where
  "levels = [''DEBUG'', ''INFO'', ''WARNING'', ''ERROR'', ''CRITICAL'']"

text \<open>
  \<open>BaseAdapter.should_log\<close>: both \<open>levels.index\<close> calls can raise, the one on the
  adapter's own level first.
\<close>

definition should_log :: "adapter \<Rightarrow> string \<Rightarrow> error + bool" where
  "should_log self lvl =
     (case index_of levels (py_upper (adapter_level self)) of
        Inl e \<Rightarrow> Inl e
      | Inr min_level_idx \<Rightarrow>
          (case index_of levels (py_upper lvl) of
             Inl e \<Rightarrow> Inl e
           | Inr current_level_idx \<Rightarrow> Inr (current_level_idx \<ge> min_level_idx)))"

text \<open>
  The severity scale as the specification words it: five severities in the fixed order
  \<open>DEBUG < INFO < WARNING < ERROR < CRITICAL\<close>.
\<close>

datatype severity = DEBUG | INFO | WARNING | ERROR | CRITICAL

fun severity_name :: "severity \<Rightarrow> string" where
  "severity_name DEBUG = ''DEBUG''"
| "severity_name INFO = ''INFO''"
| "severity_name WARNING = ''WARNING''"
| "severity_name ERROR = ''ERROR''"
| "severity_name CRITICAL = ''CRITICAL''"

fun severity_rank :: "severity \<Rightarrow> nat" where
  "severity_rank DEBUG = 0"
| "severity_rank INFO = 1"
| "severity_rank WARNING = 2"
| "severity_rank ERROR = 3"
| "severity_rank CRITICAL = 4"

text \<open>
  \<open>get_sink_config\<close>: the keyword arguments each adapter hands to \<open>logger.add\<close>. A key
  the adapter does not set is \<open>None\<close>. The sink of the cloud adapter is its own bound
  method \<open>self._sink\<close>.
\<close>

datatype sink_target = Stderr | Stdout | GCPSink adapter

record sink_config =
  sc_sink :: sink_target
  sc_format :: "string option"
  sc_level :: string
  sc_colorize :: "bool option"
  sc_serialize :: "bool option"

definition console_format :: string where
  "console_format =
     ''<green>{time:YYYY-MM-DD HH:mm:ss}</green> | '' @
     ''<level>{level: <8}</level> | '' @
     ''<dim>{extra[trace_id]}</dim> | '' @
     ''<cyan>{extra[name]}</cyan> | '' @
     ''<dim>{file}:{line}</dim> | '' @
     ''<level>{message}</level>''"

fun get_sink_config :: "adapter \<Rightarrow> sink_config" where
  "get_sink_config (ConsoleAdapter lvl c) =
     \<lparr>sc_sink = Stderr, sc_format = Some console_format, sc_level = lvl,
      sc_colorize = Some c, sc_serialize = None\<rparr>"
| "get_sink_config (JSONAdapter lvl) =
     \<lparr>sc_sink = Stdout, sc_format = Some ''{message}'', sc_level = lvl,
      sc_colorize = Some False, sc_serialize = Some True\<rparr>"
| "get_sink_config (GCPAdapter lvl p) =
     \<lparr>sc_sink = GCPSink (GCPAdapter lvl p), sc_format = None, sc_level = lvl,
      sc_colorize = Some False, sc_serialize = None\<rparr>"

section \<open>The loguru logger the core drives\<close>

text \<open>
  The library configures the process-wide \<open>loguru\<close> logger. Of that logger the model
  keeps the list of installed handlers and the registry of level names, a parameter
  \<open>reg\<close>. \<open>logger.level(name)\<close> returns the registered level of that name and raises
  \<open>ValueError\<close> for a name that is not registered; \<open>logger.add\<close> resolves the level of
  the new handler through the same lookup before it installs the handler;
  \<open>logger.remove()\<close> without an argument removes every handler. \<open>logger.log\<close> takes
  a level name or a level number: with no handler installed it returns at once;
  otherwise it raises \<open>ValueError\<close> for a name that is not registered and for a negative
  number.
\<close>

record loguru_level =
  lv_name :: string
  lv_no :: int

type_synonym registry = "loguru_level list"

definition default_levels :: registry where
  "default_levels =
     [\<lparr>lv_name = ''TRACE'', lv_no = 5\<rparr>, \<lparr>lv_name = ''DEBUG'', lv_no = 10\<rparr>,
      \<lparr>lv_name = ''INFO'', lv_no = 20\<rparr>, \<lparr>lv_name = ''SUCCESS'', lv_no = 25\<rparr>,
      \<lparr>lv_name = ''WARNING'', lv_no = 30\<rparr>, \<lparr>lv_name = ''ERROR'', lv_no = 40\<rparr>,
      \<lparr>lv_name = ''CRITICAL'', lv_no = 50\<rparr>]"

definition loguru_level_of :: "registry \<Rightarrow> string \<Rightarrow> error + loguru_level" where
  "loguru_level_of reg n =
     (case find (\<lambda>l. lv_name l = n) reg of None \<Rightarrow> Inl ValueError | Some l \<Rightarrow> Inr l)"

definition loguru_add ::
  "registry \<Rightarrow> sink_config \<Rightarrow> sink_config list \<Rightarrow> error + sink_config list" where
  "loguru_add reg cfg hs =
     (case loguru_level_of reg (sc_level cfg) of
        Inl e \<Rightarrow> Inl e
      | Inr l \<Rightarrow> Inr (hs @ [cfg]))"

definition loguru_remove :: "sink_config list \<Rightarrow> sink_config list" where
  "loguru_remove hs = []"

datatype level_arg = LevelName string | LevelNo int

definition loguru_log :: "registry \<Rightarrow> sink_config list \<Rightarrow> level_arg \<Rightarrow> error + unit" where
  "loguru_log reg hs lvl =
     (if hs = [] then Inr ()
      else (case lvl of
              LevelName n \<Rightarrow>
                (case loguru_level_of reg n of Inl e \<Rightarrow> Inl e | Inr l \<Rightarrow> Inr ())
            | LevelNo i \<Rightarrow> if i < 0 then Inl ValueError else Inr ()))"

section \<open>Logger core (core.py)\<close>

text \<open>
  The class attributes \<open>_configured\<close> and \<open>_adapters\<close> of \<open>LoggerCore\<close>, together with
  the handlers of the loguru logger and, for every name, the handler list and the
  propagation flag of the standard-library logger of that name. An operation returns
  its outcome and the state it leaves; an exception leaves the writes made before it.
\<close>

datatype stdlib_handler = InterceptHandler | StreamHandler

record stdlib_logger =
  sl_handlers :: "stdlib_handler list"
  sl_propagate :: bool

record core_state =
  configured :: bool
  adapters :: "adapter list"
  handlers :: "sink_config list"
  stdlib :: "string \<Rightarrow> stdlib_logger"

text \<open>The loop \<open>for adapter in cls._adapters: logger.add(**adapter.get_sink_config())\<close>.\<close>

fun add_sinks :: "registry \<Rightarrow> adapter list \<Rightarrow> core_state \<Rightarrow> (error + unit) \<times> core_state" where
  "add_sinks reg [] s = (Inr (), s)"
| "add_sinks reg (adapter # rest) s =
     (case loguru_add reg (get_sink_config adapter) (handlers s) of
        Inl e \<Rightarrow> (Inl e, s)
      | Inr hs \<Rightarrow> add_sinks reg rest (s\<lparr>handlers := hs\<rparr>))"

definition configure ::
  "registry \<Rightarrow> adapter list option \<Rightarrow> core_state \<Rightarrow> (error + unit) \<times> core_state" where
  "configure reg adapters_arg s =
     (if configured s then (Inr (), s)
      else
        let ads = (case adapters_arg of None \<Rightarrow> [ConsoleAdapter ''DEBUG'' True] | Some a \<Rightarrow> a);
            s1 = s\<lparr>adapters := ads\<rparr>;
            s2 = s1\<lparr>handlers := loguru_remove (handlers s1)\<rparr>
        in (case add_sinks reg (adapters s2) s2 of
              (Inl e, s3) \<Rightarrow> (Inl e, s3)
            | (Inr u, s3) \<Rightarrow> (Inr (), s3\<lparr>configured := True\<rparr>)))"

definition is_configured :: "core_state \<Rightarrow> bool" where
  "is_configured s = configured s"

definition get_adapters :: "core_state \<Rightarrow> adapter list" where
  "get_adapters s = adapters s"

section \<open>Configuration helpers (config.py)\<close>

definition LOG_ENV_VAR :: string where
  "LOG_ENV_VAR = ''LOG_ENV''"

definition GOOGLE_ENV_VALUE :: string where
  "GOOGLE_ENV_VALUE = ''google''"

definition LOG_LEVEL_VAR :: string where
  "LOG_LEVEL_VAR = ''LOG_LEVEL''"

definition PROJECT_ID_VARS :: "string list" where
  "PROJECT_ID_VARS = [''GOOGLE_CLOUD_PROJECT'', ''GCP_PROJECT_ID'']"

definition default_stdlib_loggers :: "string list" where
  "default_stdlib_loggers =
     [''uvicorn'', ''uvicorn.access'', ''uvicorn.error'', ''fastapi'', ''sqlalchemy'',
      ''sqlalchemy.engine'']"

text \<open>
  \<open>logging.getLogger(name)\<close> returns the root logger for the empty name and for the
  name \<open>root\<close>, and the logger of that name otherwise; the table of loggers holds the
  root logger under \<open>root\<close>.
\<close>

definition logger_key :: "string \<Rightarrow> string" where
  "logger_key logger_name = (if logger_name = [] then ''root'' else logger_name)"

text \<open>
  The loop of \<open>configure_logging\<close> over the logger names: the handler list of each is
  replaced by one \<open>InterceptHandler\<close> and its propagation is switched off.
\<close>

fun intercept_loggers :: "string list \<Rightarrow> (string \<Rightarrow> stdlib_logger) \<Rightarrow> (string \<Rightarrow> stdlib_logger)" where
  "intercept_loggers [] t = t"
| "intercept_loggers (logger_name # rest) t =
     intercept_loggers rest
       (t(logger_key logger_name :=
            \<lparr>sl_handlers = [InterceptHandler], sl_propagate = False\<rparr>))"

definition configure_logging ::
  "registry \<Rightarrow> adapter list option \<Rightarrow> bool \<Rightarrow> string list option \<Rightarrow> core_state
     \<Rightarrow> (error + unit) \<times> core_state" where
  "configure_logging reg adapters_arg intercept_stdlib stdlib_loggers s =
     (case configure reg adapters_arg s of
        (Inl e, s1) \<Rightarrow> (Inl e, s1)
      | (Inr u, s1) \<Rightarrow>
          if \<not> intercept_stdlib then (Inr (), s1)
          else
            let names = (case stdlib_loggers of None \<Rightarrow> default_stdlib_loggers | Some l \<Rightarrow> l)
            in (Inr (), s1\<lparr>stdlib := intercept_loggers names (stdlib s1)\<rparr>))"

text \<open>
  The environment is a map from variable names to values. The loop over
  \<open>PROJECT_ID_VARS\<close> assigns \<open>project_id\<close> from each variable in turn and stops at the
  first value that is truthy, that is set and not empty.
\<close>

type_synonym environ = "string \<rightharpoonup> string"

fun project_id_loop :: "environ \<Rightarrow> string list \<Rightarrow> string option \<Rightarrow> string option" where
  "project_id_loop env [] project_id = project_id"
| "project_id_loop env (var # rest) project_id =
     (case env var of
        Some v \<Rightarrow> if v \<noteq> [] then Some v else project_id_loop env rest (Some v)
      | None \<Rightarrow> project_id_loop env rest None)"

text \<open>The adapter list \<open>configure_logging_from_env\<close> builds from the environment.\<close>

definition adapters_from_env :: "environ \<Rightarrow> adapter list" where
  "adapters_from_env env =
     (let log_env = py_lower (py_strip (case env LOG_ENV_VAR of None \<Rightarrow> [] | Some v \<Rightarrow> v));
          lvl = (case env LOG_LEVEL_VAR of None \<Rightarrow> ''INFO'' | Some v \<Rightarrow> v);
          project_id = project_id_loop env PROJECT_ID_VARS None
      in if log_env = GOOGLE_ENV_VALUE then [GCPAdapter lvl project_id]
         else [ConsoleAdapter lvl True])"

definition configure_logging_from_env ::
  "registry \<Rightarrow> environ \<Rightarrow> bool \<Rightarrow> string list option \<Rightarrow> core_state
     \<Rightarrow> (error + unit) \<times> core_state" where
  "configure_logging_from_env reg env intercept_stdlib stdlib_loggers s =
     configure_logging reg (Some (adapters_from_env env)) intercept_stdlib stdlib_loggers s"

text \<open>
  \<open>reset_logging\<close>; its last statement, \<open>logging.basicConfig(force=True)\<close>, replaces the
  handlers of the standard-library root logger by one stream handler.
\<close>

definition reset_logging :: "core_state \<Rightarrow> core_state" where
  "reset_logging s =
     (let s1 = s\<lparr>handlers := loguru_remove (handlers s)\<rparr>;
          s2 = s1\<lparr>configured := False\<rparr>;
          s3 = s2\<lparr>adapters := []\<rparr>
      in s3\<lparr>stdlib := (stdlib s3)(''root'' := (stdlib s3 ''root'')\<lparr>sl_handlers := [StreamHandler]\<rparr>)\<rparr>)"

section \<open>Standard-logging bridge (interceptor.py)\<close>

text \<open>
  A standard-library \<open>LogRecord\<close> with the attributes \<open>emit\<close> reads.
  \<open>lr_getMessage\<close> is the outcome of \<open>record.getMessage()\<close>: the message, or the
  exception that formatting the message with the record's arguments raises.
\<close>

record log_record =
  lr_name :: string
  lr_levelname :: string
  lr_levelno :: int
  lr_getMessage :: "error + string"
  lr_exc_info :: "string option"

text \<open>
  \<open>emit\<close> ends in one call on the loguru logger,
  \<open>logger.opt(depth, exception).bind(trace_id, name).log(level, record.getMessage())\<close>.
  When that call returns, the outcome of \<open>emit\<close> is the arguments it was made with.
\<close>

record loguru_call =
  lc_level :: level_arg
  lc_depth :: nat
  lc_exception :: "string option"
  lc_trace_id :: string
  lc_name :: string
  lc_message :: string

text \<open>
  The loop \<open>while frame and frame.f_code.co_filename == logging.__file__\<close> over the
  call stack, given as the file names of the frames from \<open>logging.currentframe()\<close>
  outwards.
\<close>

fun caller_depth :: "string \<Rightarrow> string list \<Rightarrow> nat \<Rightarrow> nat" where
  "caller_depth logging_file [] depth = depth"
| "caller_depth logging_file (filename # outer) depth =
     (if filename = logging_file then caller_depth logging_file outer (depth + 1)
      else depth)"

text \<open>
  The \<open>try\<close> around the level lookup catches \<open>ValueError\<close> and nothing else. The
  trace id is read, and generated if absent, before the final statement, whose two
  calls, \<open>record.getMessage()\<close> and then \<open>log\<close>, are outside the \<open>try\<close>: an exception
  of either leaves \<open>emit\<close>. \<open>hs\<close> is the list of handlers installed on the loguru
  logger.
\<close>

definition emit ::
  "registry \<Rightarrow> sink_config list \<Rightarrow> string \<Rightarrow> string list \<Rightarrow> 128 word \<Rightarrow> log_record
     \<Rightarrow> trace_ctx \<Rightarrow> (error + loguru_call) \<times> trace_ctx" where
  "emit reg hs logging_file frames u record ctx =
     (case (case loguru_level_of reg (lr_levelname record) of
              Inr l \<Rightarrow> Inr (LevelName (lv_name l))
            | Inl e \<Rightarrow> if e = ValueError then Inr (LevelNo (lr_levelno record)) else Inl e) of
        Inl e \<Rightarrow> (Inl e, ctx)
      | Inr lvl \<Rightarrow>
          (let depth = caller_depth logging_file frames 2;
               (trace_id, ctx') = get_trace_id u ctx
           in (case lr_getMessage record of
                 Inl e \<Rightarrow> (Inl e, ctx')
               | Inr message \<Rightarrow>
                   (case loguru_log reg hs lvl of
                      Inl e \<Rightarrow> (Inl e, ctx')
                    | Inr done \<Rightarrow>
                        (Inr \<lparr>lc_level = lvl, lc_depth = depth,
                              lc_exception = lr_exc_info record, lc_trace_id = trace_id,
                              lc_name = lr_name record, lc_message = message\<rparr>, ctx')))))"

section \<open>Cloud-schema formatter (adapters/gcp.py)\<close>

text \<open>
  The values bound as extras of a loguru record, with Python's truthiness, \<open>str\<close> and
  \<open>or\<close> on them, and the values of the entry the formatter builds.
\<close>

datatype pyval = PNone | PBool bool | PInt int | PStr string

datatype jval = JNull | JBool bool | JInt int | JStr string | JObj "(string \<times> jval) list"

fun truthy :: "pyval \<Rightarrow> bool" where
  "truthy PNone = False"
| "truthy (PBool b) = b"
| "truthy (PInt i) = (i \<noteq> 0)"
| "truthy (PStr s) = (s \<noteq> [])"

definition py_or :: "pyval \<Rightarrow> pyval \<Rightarrow> pyval" where
  "py_or a b = (if truthy a then a else b)"

fun nat_digits :: "nat \<Rightarrow> string" where
  "nat_digits n =
     (if n < 10 then [''0123456789'' ! n]
      else nat_digits (n div 10) @ [''0123456789'' ! (n mod 10)])"

definition str_int :: "int \<Rightarrow> string" where
  "str_int i = (if i < 0 then CHR ''-'' # nat_digits (nat (- i)) else nat_digits (nat i))"

fun py_str :: "pyval \<Rightarrow> string" where
  "py_str PNone = ''None''"
| "py_str (PBool b) = (if b then ''True'' else ''False'')"
| "py_str (PInt i) = str_int i"
| "py_str (PStr s) = s"

fun to_json :: "pyval \<Rightarrow> jval" where
  "to_json PNone = JNull"
| "to_json (PBool b) = JBool b"
| "to_json (PInt i) = JInt i"
| "to_json (PStr s) = JStr s"

text \<open>\<open>s.replace(old, new)\<close> for a non-empty \<open>old\<close>: left to right, without overlap.\<close>

function str_replace :: "string \<Rightarrow> string \<Rightarrow> string \<Rightarrow> string" where
  "str_replace old new [] = []"
| "str_replace old new (c # cs) =
     (if old \<noteq> [] \<and> take (length old) (c # cs) = old
      then new @ str_replace old new (drop (length old) (c # cs))
      else c # str_replace old new cs)"
  by pat_completeness auto
termination
  by (relation "measure (\<lambda>(old, new, s). length s)") auto

text \<open>
  The fields of a loguru record the formatter reads: \<open>record["level"].name\<close>,
  \<open>record["message"]\<close>, the time already converted to UTC and rendered by
  \<open>isoformat()\<close>, \<open>record["file"].name\<close>, \<open>record["line"]\<close>, \<open>record["function"]\<close> and
  the dictionary \<open>record["extra"]\<close>.
\<close>

record loguru_record =
  r_level_name :: string
  r_message :: string
  r_time_iso :: string
  r_file_name :: string
  r_line :: int
  r_function :: string
  r_extra :: "(string \<times> pyval) list"

text \<open>\<open>re.fullmatch(r"[0-9a-f]{32}", value)\<close>.\<close>

definition is_gcp_trace_id :: "string \<Rightarrow> bool" where
  "is_gcp_trace_id v = (length v = 32 \<and> list_all (\<lambda>c. c \<in> set hexdigits) v)"

definition level_map :: "(string \<times> string) list" where
  "level_map =
     [(''TRACE'', ''DEBUG''), (''DEBUG'', ''DEBUG''), (''INFO'', ''INFO''),
      (''SUCCESS'', ''INFO''), (''WARNING'', ''WARNING''), (''ERROR'', ''ERROR''),
      (''CRITICAL'', ''CRITICAL'')]"

definition trace_key :: string where
  "trace_key = ''logging.googleapis.com/trace''"

text \<open>The loop that copies every extra except \<open>trace_id\<close> and \<open>name\<close> into the entry.\<close>

fun add_extras :: "(string \<times> pyval) list \<Rightarrow> (string \<times> jval) list \<Rightarrow> (string \<times> jval) list" where
  "add_extras [] log_entry = log_entry"
| "add_extras ((k, v) # rest) log_entry =
     (if k \<noteq> ''trace_id'' \<and> k \<noteq> ''name''
      then add_extras rest (dict_set log_entry k (to_json v))
      else add_extras rest log_entry)"

text \<open>
  \<open>GCPAdapter._gcp_formatter\<close> for an adapter whose \<open>project_id\<close> is the first
  argument. The function is the dictionary \<open>log_entry\<close> as it stands at the
  \<open>return\<close>; the source returns \<open>json.dumps\<close> of it, one JSON object with the same keys
  and values.
\<close>

definition gcp_formatter :: "string option \<Rightarrow> loguru_record \<Rightarrow> (string \<times> jval) list" where
  "gcp_formatter project_id record =
     (let severity = dict_get level_map (r_level_name record) ''INFO'';
          log_entry =
            [(''severity'', JStr severity),
             (''message'', JStr (r_message record)),
             (''timestamp'', JStr (str_replace ''+00:00'' ''Z'' (r_time_iso record))),
             (''logging.googleapis.com/sourceLocation'',
                JObj [(''file'', JStr (r_file_name record)),
                      (''line'', JInt (r_line record)),
                      (''function'', JStr (r_function record))])];
          trace_id = py_str (py_or (dict_get (r_extra record) ''trace_id'' (PStr [])) (PStr []));
          log_entry =
            (if trace_id \<noteq> [] then
               let log_entry = dict_set log_entry ''trace_id'' (JStr trace_id) in
               (case project_id of
                  Some p \<Rightarrow>
                    if p \<noteq> [] \<and> is_gcp_trace_id trace_id
                    then dict_set log_entry trace_key
                           (JStr (''projects/'' @ p @ ''/traces/'' @ trace_id))
                    else log_entry
                | None \<Rightarrow> log_entry)
             else log_entry);
          log_entry =
            (case map_of (r_extra record) ''name'' of
               Some logger_name \<Rightarrow>
                 if truthy logger_name
                 then dict_set log_entry ''logger'' (JStr (py_str logger_name))
                 else log_entry
             | None \<Rightarrow> log_entry)
      in add_extras (r_extra record) log_entry)"

section \<open>Example inputs\<close>

text \<open>
  The state of a fresh process: the core is unconfigured, the loguru logger has its
  one default handler on the error stream, and every standard-library logger has no
  handler and propagates. The other constants are inputs the results below are
  evaluated at.
\<close>

definition initial_state :: core_state where
  "initial_state =
     \<lparr>configured = False, adapters = [],
      handlers = [\<lparr>sc_sink = Stderr, sc_format = None, sc_level = ''DEBUG'',
                   sc_colorize = None, sc_serialize = None\<rparr>],
      stdlib = (\<lambda>n. \<lparr>sl_handlers = [], sl_propagate = True\<rparr>)\<rparr>"

definition configured_state :: core_state where
  "configured_state =
     initial_state\<lparr>configured := True, adapters := [JSONAdapter ''INFO''],
       handlers := [get_sink_config (JSONAdapter ''INFO'')]\<rparr>"

definition example_record :: "(string \<times> pyval) list \<Rightarrow> loguru_record" where
  "example_record extra =
     \<lparr>r_level_name = ''INFO'', r_message = ''Request received'',
      r_time_iso = ''2026-02-05T21:55:32.123000+00:00'', r_file_name = ''main.py'',
      r_line = 42, r_function = ''handle_request'', r_extra = extra\<rparr>"

definition example_environ :: environ where
  "example_environ =
     map_of [(''LOG_ENV'', '' Google ''), (''GOOGLE_CLOUD_PROJECT'', ''''),
             (''GCP_PROJECT_ID'', ''my-project'')]"

definition example_log_record :: "string \<Rightarrow> int \<Rightarrow> error + string \<Rightarrow> log_record" where
  "example_log_record levelname levelno message =
     \<lparr>lr_name = ''uvicorn'', lr_levelname = levelname, lr_levelno = levelno,
      lr_getMessage = message, lr_exc_info = None\<rparr>"

section \<open>Properties of the trace context\<close>

lemma length_hex_fixed: "length (hex_fixed w n) = w"
  by (induction w arbitrary: n) simp_all

lemma hex_digit_in: "hex_digit d \<in> set hexdigits"
proof -
  have "d mod 16 < length hexdigits" by (simp add: hexdigits_def)
  then show ?thesis unfolding hex_digit_def by (rule nth_mem)
qed

lemma set_hex_fixed: "set (hex_fixed w n) \<subseteq> set hexdigits"
  by (induction w arbitrary: n) (auto simp: hex_digit_in)

lemma new_trace_id_hex8: "is_hex8 (new_trace_id u)"
proof -
  have "length (new_trace_id u) = 8"
    by (simp add: new_trace_id_def uuid_hex_def length_hex_fixed)
  moreover have "set (new_trace_id u) \<subseteq> set hexdigits"
    using set_take_subset set_hex_fixed unfolding new_trace_id_def uuid_hex_def
    by (rule subset_trans)
  ultimately show ?thesis
    by (auto simp: is_hex8_def list_all_iff)
qed

lemma new_trace_id_nonempty: "new_trace_id u \<noteq> []"
  using new_trace_id_hex8 [of u] by (auto simp: is_hex8_def)

text \<open>
  C1 (as amended). For every non-empty string \<open>tid\<close>, \<open>set_trace_id(tid)\<close> followed by
  \<open>get_trace_id()\<close> in the same context returns exactly \<open>tid\<close> and leaves it installed,
  whatever its format.
\<close>

theorem set_then_get_trace_id:
  "tid \<noteq> [] \<Longrightarrow> get_trace_id u (set_trace_id tid ctx) = (tid, tid)"
  by (simp add: get_trace_id_def set_trace_id_def)

theorem set_then_get_trace_id_witness:
  "''req-42/X'' \<noteq> [] \<and> get_trace_id 0 (set_trace_id ''req-42/X'' ''05556afc'') = (''req-42/X'', ''req-42/X'')"
  using set_then_get_trace_id [of "''req-42/X''" 0 "''05556afc''"] by simp

text \<open>
  The restriction cannot be dropped: the slot cannot tell the empty string from an
  absent value, so the read after \<open>set_trace_id("")\<close> generates an identifier.
\<close>

theorem set_then_get_trace_id_counterexample:
  "fst (get_trace_id 0 (set_trace_id [] ''05556afc'')) = ''00000000'' \<and>
   fst (get_trace_id 0 (set_trace_id [] ''05556afc'')) \<noteq> []"
  by code_simp

lemma take_hex_fixed: "take k (hex_fixed (k + j) n) = hex_fixed k (n div 16 ^ j)"
proof (induction j arbitrary: n)
  case 0
  show ?case by (simp add: length_hex_fixed)
next
  case (Suc j)
  have "take k (hex_fixed (k + Suc j) n) = take k (hex_fixed (k + j) (n div 16))"
    by (simp add: length_hex_fixed)
  also have "\<dots> = hex_fixed k (n div 16 div 16 ^ j)"
    by (rule Suc.IH)
  also have "n div 16 div 16 ^ j = n div 16 ^ Suc j"
    by (simp add: div_mult2_eq)
  finally show ?case .
qed

lemma new_trace_id_digits: "new_trace_id u = hex_fixed 8 (unat u div 16 ^ 24)"
  using take_hex_fixed [of 8 24 "unat u"] by (simp add: new_trace_id_def uuid_hex_def)

lemma hex_digit_inj: "hex_digit a = hex_digit b \<Longrightarrow> a mod 16 = b mod 16"
proof -
  assume h: "hex_digit a = hex_digit b"
  have d: "distinct hexdigits" by (simp add: hexdigits_def)
  have la: "a mod 16 < length hexdigits" and lb: "b mod 16 < length hexdigits"
    by (simp_all add: hexdigits_def)
  from h show ?thesis
    unfolding hex_digit_def using nth_eq_iff_index_eq [OF d la lb] by simp
qed

lemma hex_fixed_inj: "hex_fixed w n = hex_fixed w m \<Longrightarrow> n mod 16 ^ w = m mod 16 ^ w"
proof (induction w arbitrary: n m)
  case 0
  show ?case by simp
next
  case (Suc w)
  from Suc.prems have a: "hex_fixed w (n div 16) = hex_fixed w (m div 16)"
    and b: "hex_digit n = hex_digit m"
    by (simp_all add: length_hex_fixed)
  from Suc.IH [OF a] have c: "n div 16 mod 16 ^ w = m div 16 mod 16 ^ w" .
  from hex_digit_inj [OF b] have e: "n mod 16 = m mod 16" .
  have "n mod (16 * 16 ^ w) = 16 * (n div 16 mod 16 ^ w) + n mod 16"
    by (rule mod_mult2_eq)
  moreover have "m mod (16 * 16 ^ w) = 16 * (m div 16 mod 16 ^ w) + m mod 16"
    by (rule mod_mult2_eq)
  ultimately show ?case using c e by simp
qed

lemma leading_bits_bound: "unat (u :: 128 word) div 16 ^ 24 < 16 ^ 8"
proof -
  have "unat u < 16 ^ 8 * 16 ^ 24"
    using unsigned_less [of u, where 'a = nat] by simp
  then show ?thesis by (rule less_mult_imp_div_less)
qed

lemma new_trace_id_eq_iff:
  "(new_trace_id u = new_trace_id v) = (unat u div 16 ^ 24 = unat v div 16 ^ 24)"
proof
  assume "new_trace_id u = new_trace_id v"
  then have "hex_fixed 8 (unat u div 16 ^ 24) = hex_fixed 8 (unat v div 16 ^ 24)"
    by (simp only: new_trace_id_digits)
  from hex_fixed_inj [OF this] leading_bits_bound [of u] leading_bits_bound [of v]
  show "unat u div 16 ^ 24 = unat v div 16 ^ 24" by simp
next
  assume "unat u div 16 ^ 24 = unat v div 16 ^ 24"
  then show "new_trace_id u = new_trace_id v" by (simp only: new_trace_id_digits)
qed

lemma hex_fixed_numeral:
  "hex_fixed (numeral k) n = hex_fixed (pred_numeral k) (n div 16) @ [hex_digit n]"
  by (simp add: numeral_eq_Suc [of k])

text \<open>
  C4. In a context whose slot is absent or empty, \<open>get_trace_id()\<close> generates an
  identifier of exactly 8 characters from \<open>0-9a-f\<close>, installs it and returns it, and an
  immediately repeated call returns the same value, whatever would be drawn then;
  \<open>reset_trace_id()\<close> installs a generated identifier of the same shape. The identifier
  is generated from the draw: it is the 8 hexadecimal digits of the leading 32 bits of
  the value \<open>uuid.uuid4()\<close> returns, so two draws give the same identifier exactly when
  they agree on those bits.
\<close>

theorem get_trace_id_generates:
  "ctx = [] \<Longrightarrow>
     (case get_trace_id u ctx of (t, ctx') \<Rightarrow>
        is_hex8 t \<and> t = hex_fixed 8 (unat u div 16 ^ 24) \<and> ctx' = t
        \<and> get_trace_id u' ctx' = (t, t))
     \<and> is_hex8 (reset_trace_id u ctx0)
     \<and> reset_trace_id u ctx0 = hex_fixed 8 (unat u div 16 ^ 24)
     \<and> ((fst (get_trace_id u ctx) = fst (get_trace_id v ctx))
          = (unat u div 16 ^ 24 = unat v div 16 ^ 24))
     \<and> ((reset_trace_id u ctx0 = reset_trace_id v ctx0)
          = (unat u div 16 ^ 24 = unat v div 16 ^ 24))"
proof -
  assume e: "ctx = []"
  have g: "get_trace_id u ctx = (new_trace_id u, new_trace_id u)"
    "get_trace_id v ctx = (new_trace_id v, new_trace_id v)"
    using e by (simp_all add: get_trace_id_def)
  have again: "get_trace_id u' (new_trace_id u) = (new_trace_id u, new_trace_id u)"
    using new_trace_id_nonempty [of u] by (simp add: get_trace_id_def)
  show ?thesis
    using new_trace_id_hex8 [of u] again new_trace_id_eq_iff [of u v]
      new_trace_id_digits [of u]
    by (simp add: g reset_trace_id_def)
qed

theorem get_trace_id_generates_witness:
  "([]::string) = []
   \<and> (case get_trace_id 0x05556afc0123456789abcdef01234567 [] of (t, ctx') \<Rightarrow>
        is_hex8 t \<and> t = ''05556afc'' \<and> ctx' = t
        \<and> get_trace_id 0xdeadbeef0123456789abcdef01234567 ctx' = (t, t))
   \<and> is_hex8 (reset_trace_id 0xdeadbeef0123456789abcdef01234567 ''05556afc'')
   \<and> reset_trace_id 0xdeadbeef0123456789abcdef01234567 ''05556afc'' = ''deadbeef''
   \<and> fst (get_trace_id 0x05556afc0123456789abcdef01234567 [])
       \<noteq> fst (get_trace_id 0xdeadbeef0123456789abcdef01234567 [])"
proof -
  have h: "([]::string) = []" by simp
  have a: "hex_fixed 8 (unat (0x05556afc0123456789abcdef01234567 :: 128 word) div 16 ^ 24)
      = ''05556afc''"
    by (simp add: hex_fixed_numeral hex_digit_def hexdigits_def)
  have b: "hex_fixed 8 (unat (0xdeadbeef0123456789abcdef01234567 :: 128 word) div 16 ^ 24)
      = ''deadbeef''"
    by (simp add: hex_fixed_numeral hex_digit_def hexdigits_def)
  have c: "unat (0x05556afc0123456789abcdef01234567 :: 128 word) div 16 ^ 24
      \<noteq> unat (0xdeadbeef0123456789abcdef01234567 :: 128 word) div 16 ^ 24"
    by simp
  note t1 = get_trace_id_generates [OF h, of "0x05556afc0123456789abcdef01234567"
      "0xdeadbeef0123456789abcdef01234567" "''05556afc''" "0xdeadbeef0123456789abcdef01234567",
      unfolded a]
  note t2 = get_trace_id_generates [OF h, of "0xdeadbeef0123456789abcdef01234567"
      "0x05556afc0123456789abcdef01234567" "''05556afc''" "0x05556afc0123456789abcdef01234567",
      unfolded b]
  note first_read = t1 [THEN conjunct1]
  note draws = t1 [THEN conjunct2, THEN conjunct2, THEN conjunct2, THEN conjunct1]
  note reset_shape = t2 [THEN conjunct2, THEN conjunct1]
  note reset_value = t2 [THEN conjunct2, THEN conjunct2, THEN conjunct1]
  have differ: "fst (get_trace_id 0x05556afc0123456789abcdef01234567 [])
       \<noteq> fst (get_trace_id 0xdeadbeef0123456789abcdef01234567 [])"
  proof
    assume "fst (get_trace_id 0x05556afc0123456789abcdef01234567 [])
       = fst (get_trace_id 0xdeadbeef0123456789abcdef01234567 [])"
    then have "unat (0x05556afc0123456789abcdef01234567 :: 128 word) div 16 ^ 24
      = unat (0xdeadbeef0123456789abcdef01234567 :: 128 word) div 16 ^ 24"
      by (rule iffD1 [OF draws])
    with c show False by (rule notE)
  qed
  show ?thesis
    by (intro conjI) (rule h first_read reset_shape reset_value differ)+
qed

section \<open>Properties of the cloud-schema formatter\<close>

lemma map_of_dict_set: "map_of (dict_set d k v) = (map_of d)(k \<mapsto> v)"
  by (induction d k v rule: dict_set.induct) auto

lemma map_of_add_extras:
  "map_of xs k = None \<or> k = ''trace_id'' \<or> k = ''name'' \<Longrightarrow>
     map_of (add_extras xs e) k = map_of e k"
proof (induction xs arbitrary: e)
  case Nil
  then show ?case by simp
next
  case (Cons x xs)
  obtain k' v' where x: "x = (k', v')" by (cases x)
  from Cons.prems x have rest: "map_of xs k = None \<or> k = ''trace_id'' \<or> k = ''name''"
    by (auto split: if_splits)
  show ?case
  proof (cases "k' \<noteq> ''trace_id'' \<and> k' \<noteq> ''name''")
    case True
    with Cons.prems x have "k' \<noteq> k" by (auto split: if_splits)
    with True x Cons.IH [OF rest] show ?thesis
      by (simp add: map_of_dict_set)
  next
    case False
    with x Cons.IH [OF rest] show ?thesis by auto
  qed
qed

lemma is_gcp_trace_id_nonempty: "is_gcp_trace_id t \<Longrightarrow> t \<noteq> []"
  by (auto simp: is_gcp_trace_id_def)

lemma gcp_entry_trace_key:
  assumes "map_of (r_extra r) trace_key = None"
  shows "map_of (gcp_formatter pid r) trace_key =
     (let t = py_str (py_or (dict_get (r_extra r) ''trace_id'' (PStr [])) (PStr [])) in
      case pid of
        Some p \<Rightarrow> if t \<noteq> [] \<and> p \<noteq> [] \<and> is_gcp_trace_id t
                  then Some (JStr (''projects/'' @ p @ ''/traces/'' @ t)) else None
      | None \<Rightarrow> None)"
  using assms
  by (auto simp: gcp_formatter_def Let_def map_of_add_extras map_of_dict_set trace_key_def
      split: option.splits)

lemma gcp_entry_trace_id:
  "map_of (gcp_formatter pid r) ''trace_id'' =
     (let t = py_str (py_or (dict_get (r_extra r) ''trace_id'' (PStr [])) (PStr [])) in
      if t \<noteq> [] then Some (JStr t) else None)"
  by (auto simp: gcp_formatter_def Let_def map_of_add_extras map_of_dict_set trace_key_def
      split: option.splits)

text \<open>
  C2 (as amended). For every record whose extras do not themselves carry the key
  \<open>logging.googleapis.com/trace\<close> and whose trace id is the string \<open>t\<close>: if \<open>t\<close> is not
  empty and is not 32 lowercase hexadecimal characters (as \<open>05556afc\<close> is not), the
  entry has no \<open>logging.googleapis.com/trace\<close> key, whatever project id is configured,
  and has \<open>t\<close> under \<open>trace_id\<close>; if \<open>t\<close> is 32 lowercase hexadecimal characters and the
  project id is \<open>my-project\<close>, the entry has \<open>logging.googleapis.com/trace\<close> equal to
  \<open>projects/my-project/traces/t\<close>, and \<open>t\<close> under \<open>trace_id\<close>.
\<close>

theorem gcp_trace_field:
  "map_of (r_extra r) trace_key = None \<Longrightarrow>
   map_of (r_extra r) ''trace_id'' = Some (PStr t) \<Longrightarrow>
     (t \<noteq> [] \<and> \<not> is_gcp_trace_id t \<longrightarrow>
        map_of (gcp_formatter pid r) trace_key = None
        \<and> map_of (gcp_formatter pid r) ''trace_id'' = Some (JStr t))
     \<and> (is_gcp_trace_id t \<longrightarrow>
        map_of (gcp_formatter (Some ''my-project'') r) trace_key
          = Some (JStr (''projects/my-project/traces/'' @ t))
        \<and> map_of (gcp_formatter (Some ''my-project'') r) ''trace_id'' = Some (JStr t))"
proof -
  assume a: "map_of (r_extra r) trace_key = None"
    and b: "map_of (r_extra r) ''trace_id'' = Some (PStr t)"
  have t: "py_str (py_or (dict_get (r_extra r) ''trace_id'' (PStr [])) (PStr [])) = t"
    using b by (simp add: dict_get_def py_or_def)
  show ?thesis
    using is_gcp_trace_id_nonempty [of t]
    by (auto simp: gcp_entry_trace_key [OF a] gcp_entry_trace_id t split: option.splits)
qed

theorem gcp_trace_field_witness:
  "map_of (r_extra (example_record [(''trace_id'', PStr ''05556afc'')])) trace_key = None
   \<and> map_of (r_extra (example_record [(''trace_id'', PStr ''05556afc'')])) ''trace_id''
       = Some (PStr ''05556afc'')
   \<and> ''05556afc'' \<noteq> [] \<and> \<not> is_gcp_trace_id ''05556afc''
   \<and> map_of (gcp_formatter (Some ''my-project'')
        (example_record [(''trace_id'', PStr ''05556afc'')])) trace_key = None
   \<and> map_of (gcp_formatter (Some ''my-project'')
        (example_record [(''trace_id'', PStr ''05556afc'')])) ''trace_id''
       = Some (JStr ''05556afc'')
   \<and> map_of (r_extra (example_record
        [(''trace_id'', PStr ''0123456789abcdef0123456789abcdef'')])) trace_key = None
   \<and> map_of (r_extra (example_record
        [(''trace_id'', PStr ''0123456789abcdef0123456789abcdef'')])) ''trace_id''
       = Some (PStr ''0123456789abcdef0123456789abcdef'')
   \<and> is_gcp_trace_id ''0123456789abcdef0123456789abcdef''
   \<and> map_of (gcp_formatter (Some ''my-project'')
        (example_record [(''trace_id'', PStr ''0123456789abcdef0123456789abcdef'')])) trace_key
       = Some (JStr ''projects/my-project/traces/0123456789abcdef0123456789abcdef'')"
proof -
  have a: "map_of (r_extra (example_record [(''trace_id'', PStr ''05556afc'')])) trace_key = None"
    by (simp add: example_record_def trace_key_def)
  have b: "map_of (r_extra (example_record [(''trace_id'', PStr ''05556afc'')])) ''trace_id''
       = Some (PStr ''05556afc'')"
    by (simp add: example_record_def)
  have c: "''05556afc'' \<noteq> [] \<and> \<not> is_gcp_trace_id ''05556afc''"
    by (simp add: is_gcp_trace_id_def)
  have a': "map_of (r_extra (example_record
        [(''trace_id'', PStr ''0123456789abcdef0123456789abcdef'')])) trace_key = None"
    by (simp add: example_record_def trace_key_def)
  have b': "map_of (r_extra (example_record
        [(''trace_id'', PStr ''0123456789abcdef0123456789abcdef'')])) ''trace_id''
       = Some (PStr ''0123456789abcdef0123456789abcdef'')"
    by (simp add: example_record_def)
  have c': "is_gcp_trace_id ''0123456789abcdef0123456789abcdef''"
    by code_simp
  have d': "''projects/my-project/traces/'' @ ''0123456789abcdef0123456789abcdef''
      = ''projects/my-project/traces/0123456789abcdef0123456789abcdef''"
    by simp
  show ?thesis
    using a b c a' b' c' gcp_trace_field [OF a b, of "Some ''my-project''"]
      gcp_trace_field [OF a' b', of "Some ''my-project''", unfolded d']
    by blast
qed

text \<open>
  Neither restriction can be dropped. An extra named \<open>logging.googleapis.com/trace\<close>
  is copied into the entry like any other extra, so the key is present although the
  trace id is \<open>05556afc\<close>; and an empty trace id, which is not 32 hexadecimal
  characters either, does not appear under \<open>trace_id\<close>.
\<close>

theorem gcp_trace_field_counterexample:
  "map_of (gcp_formatter (Some ''my-project'')
      (example_record [(''trace_id'', PStr ''05556afc''),
                       (''logging.googleapis.com/trace'', PStr ''x'')]))
     ''logging.googleapis.com/trace'' = Some (JStr ''x'')
   \<and> map_of (gcp_formatter (Some ''my-project'') (example_record [(''trace_id'', PStr [])]))
     ''trace_id'' = None"
  by code_simp

section \<open>Properties of the logger core\<close>

lemma adapters_add_sinks: "adapters (snd (add_sinks reg xs s)) = adapters s"
  by (induction xs arbitrary: s) (auto split: sum.splits)

lemma adapters_configure:
  "\<not> configured s \<Longrightarrow> adapters (snd (configure reg (Some ads) s)) = ads"
  using adapters_add_sinks [of reg ads "s\<lparr>adapters := ads, handlers := []\<rparr>"]
  by (auto simp: configure_def loguru_remove_def Let_def split: prod.splits sum.splits)

lemma adapters_configure_logging:
  "adapters (snd (configure_logging reg a i l s)) = adapters (snd (configure reg a s))"
  by (auto simp: configure_logging_def Let_def split: prod.splits sum.splits)

text \<open>
  C3. In every state in which the core is configured, and for every argument,
  \<open>configure\<close> returns without an error and leaves the whole state as it was: the
  adapter list of the first call stays, and no handler is added or removed.
\<close>

theorem configure_idempotent:
  "configured s \<Longrightarrow> configure reg a s = (Inr (), s)"
  by (simp add: configure_def)

theorem configure_idempotent_witness:
  "configured configured_state
   \<and> configure default_levels (Some [ConsoleAdapter ''DEBUG'' True]) configured_state
       = (Inr (), configured_state)"
proof -
  have h: "configured configured_state"
    by (simp add: configured_state_def)
  show ?thesis
    using h configure_idempotent [OF h, of default_levels "Some [ConsoleAdapter ''DEBUG'' True]"]
    by (rule conjI)
qed

section \<open>Properties of the adapters\<close>

lemma index_of_Inl_iff: "(index_of xs x = Inl ValueError) = (x \<notin> set xs)"
  by (induction xs) (auto split: sum.splits)

lemma index_of_error: "index_of xs x = Inl e \<Longrightarrow> e = ValueError"
  by (induction xs arbitrary: e) (auto split: sum.splits if_splits)

lemma index_of_cases: "index_of xs x = Inl ValueError \<or> (\<exists>i. index_of xs x = Inr i)"
  using index_of_error [of xs x] by (cases "index_of xs x") auto

lemma should_log_result:
  "(py_upper (adapter_level a) \<in> set levels \<and> py_upper lvl \<in> set levels
      \<longrightarrow> (\<exists>b. should_log a lvl = Inr b))
   \<and> (\<not> (py_upper (adapter_level a) \<in> set levels \<and> py_upper lvl \<in> set levels)
      \<longrightarrow> should_log a lvl = Inl ValueError)"
proof (intro conjI impI)
  assume h: "py_upper (adapter_level a) \<in> set levels \<and> py_upper lvl \<in> set levels"
  then obtain i j where "index_of levels (py_upper (adapter_level a)) = Inr i"
      "index_of levels (py_upper lvl) = Inr j"
    using index_of_cases index_of_Inl_iff by metis
  then show "\<exists>b. should_log a lvl = Inr b" by (simp add: should_log_def)
next
  assume "\<not> (py_upper (adapter_level a) \<in> set levels \<and> py_upper lvl \<in> set levels)"
  then consider "index_of levels (py_upper (adapter_level a)) = Inl ValueError"
    | "index_of levels (py_upper lvl) = Inl ValueError"
    using index_of_Inl_iff by metis
  then show "should_log a lvl = Inl ValueError"
  proof cases
    case 1
    then show ?thesis by (simp add: should_log_def)
  next
    case 2
    then show ?thesis
      using index_of_error [of levels "py_upper (adapter_level a)"]
      by (cases "index_of levels (py_upper (adapter_level a))")
         (auto simp: should_log_def)
  qed
qed

text \<open>
  C5. For an adapter whose minimum level names the severity \<open>m\<close> and a record level
  that names the severity \<open>s\<close>, in any letter case, \<open>should_log\<close> returns true if and
  only if \<open>s\<close> is at least \<open>m\<close> in the order \<open>DEBUG < INFO < WARNING < ERROR < CRITICAL\<close>.
  The result is a function of this adapter's level and the record's level alone.
\<close>

theorem should_log_iff_severity:
  "py_upper (adapter_level a) = severity_name m \<Longrightarrow> py_upper lvl = severity_name s \<Longrightarrow>
   should_log a lvl = Inr (severity_rank m \<le> severity_rank s)"
  by (cases m; cases s; simp add: should_log_def levels_def)

theorem should_log_iff_severity_witness:
  "py_upper (adapter_level (ConsoleAdapter ''warning'' True)) = severity_name WARNING
   \<and> py_upper ''Debug'' = severity_name DEBUG
   \<and> should_log (ConsoleAdapter ''warning'' True) ''Debug'' = Inr False"
proof -
  have h1: "py_upper (adapter_level (ConsoleAdapter ''warning'' True)) = severity_name WARNING"
    by code_simp
  have h2: "py_upper ''Debug'' = severity_name DEBUG"
    by code_simp
  show ?thesis
    using h1 h2 should_log_iff_severity [OF h1 h2] by simp
qed

section \<open>Properties of the configuration helpers\<close>

lemma project_id_loop_vars:
  "project_id_loop env PROJECT_ID_VARS None =
     (case env ''GOOGLE_CLOUD_PROJECT'' of
        Some v \<Rightarrow> if v \<noteq> [] then Some v else env ''GCP_PROJECT_ID''
      | None \<Rightarrow> env ''GCP_PROJECT_ID'')"
  by (auto simp: PROJECT_ID_VARS_def split: option.splits)

text \<open>
  C6. \<open>configure_logging_from_env\<close> builds one adapter: the cloud-schema adapter exactly
  when \<open>LOG_ENV\<close>, stripped and lowercased, equals \<open>google\<close>, and the console adapter
  otherwise. Its minimum level is the value of \<open>LOG_LEVEL\<close>, or \<open>INFO\<close> when the variable
  is unset. The project id of the cloud adapter is the value of \<open>GOOGLE_CLOUD_PROJECT\<close>
  when that is set and not empty, and what \<open>GCP_PROJECT_ID\<close> holds otherwise. On an
  unconfigured core this list becomes the adapter list.
\<close>

theorem adapters_from_env_selection:
  "adapters_from_env env =
     (let lvl = (case env ''LOG_LEVEL'' of None \<Rightarrow> ''INFO'' | Some v \<Rightarrow> v);
          project_id =
            (case env ''GOOGLE_CLOUD_PROJECT'' of
               Some v \<Rightarrow> if v \<noteq> [] then Some v else env ''GCP_PROJECT_ID''
             | None \<Rightarrow> env ''GCP_PROJECT_ID'')
      in if py_lower (py_strip (case env ''LOG_ENV'' of None \<Rightarrow> [] | Some v \<Rightarrow> v)) = ''google''
         then [GCPAdapter lvl project_id] else [ConsoleAdapter lvl True])
   \<and> (\<not> configured s \<longrightarrow>
        get_adapters (snd (configure_logging_from_env reg env i l s)) = adapters_from_env env)"
proof
  show "adapters_from_env env =
     (let lvl = (case env ''LOG_LEVEL'' of None \<Rightarrow> ''INFO'' | Some v \<Rightarrow> v);
          project_id =
            (case env ''GOOGLE_CLOUD_PROJECT'' of
               Some v \<Rightarrow> if v \<noteq> [] then Some v else env ''GCP_PROJECT_ID''
             | None \<Rightarrow> env ''GCP_PROJECT_ID'')
      in if py_lower (py_strip (case env ''LOG_ENV'' of None \<Rightarrow> [] | Some v \<Rightarrow> v)) = ''google''
         then [GCPAdapter lvl project_id] else [ConsoleAdapter lvl True])"
    unfolding adapters_from_env_def project_id_loop_vars
    by (simp add: LOG_ENV_VAR_def LOG_LEVEL_VAR_def GOOGLE_ENV_VALUE_def Let_def)
  show "\<not> configured s \<longrightarrow>
        get_adapters (snd (configure_logging_from_env reg env i l s)) = adapters_from_env env"
    by (simp add: get_adapters_def configure_logging_from_env_def adapters_configure_logging
        adapters_configure)
qed

theorem adapters_from_env_selection_witness:
  "\<not> configured initial_state
   \<and> adapters_from_env example_environ = [GCPAdapter ''INFO'' (Some ''my-project'')]
   \<and> get_adapters (snd (configure_logging_from_env default_levels example_environ True None
        initial_state)) = [GCPAdapter ''INFO'' (Some ''my-project'')]"
proof -
  have h: "\<not> configured initial_state"
    by (simp add: initial_state_def)
  have e: "adapters_from_env example_environ = [GCPAdapter ''INFO'' (Some ''my-project'')]"
    by code_simp
  show ?thesis
    using h e adapters_from_env_selection [of example_environ initial_state default_levels True None]
    by simp
qed

text \<open>
  C7. After \<open>reset_logging\<close>, from any state, \<open>is_configured\<close> is false, \<open>get_adapters\<close>
  is empty and no loguru handler is left.
\<close>

theorem reset_unconfigures:
  "is_configured (reset_logging s) = False \<and> get_adapters (reset_logging s) = []
   \<and> handlers (reset_logging s) = []"
  by (simp add: reset_logging_def is_configured_def get_adapters_def loguru_remove_def Let_def)

section \<open>Properties of the standard-logging bridge\<close>

lemma caller_depth_eq:
  "caller_depth lf frames d = d + length (takeWhile (\<lambda>f. f = lf) frames)"
  by (induction frames arbitrary: d) auto

lemma level_found:
  "n \<in> lv_name ` set reg \<Longrightarrow> \<exists>l. loguru_level_of reg n = Inr l \<and> lv_name l = n"
proof -
  assume "n \<in> lv_name ` set reg"
  then have "find (\<lambda>l. lv_name l = n) reg \<noteq> None"
    by (auto simp: find_None_iff)
  then obtain l where f: "find (\<lambda>l. lv_name l = n) reg = Some l" by auto
  then have "lv_name l = n" by (auto simp: find_Some_iff)
  with f show ?thesis by (simp add: loguru_level_of_def)
qed

lemma level_missing:
  "n \<notin> lv_name ` set reg \<Longrightarrow> loguru_level_of reg n = Inl ValueError"
proof -
  assume "n \<notin> lv_name ` set reg"
  then have "find (\<lambda>l. lv_name l = n) reg = None"
    by (auto simp: find_None_iff)
  then show ?thesis by (simp add: loguru_level_of_def)
qed

text \<open>
  C8 (as amended). For every standard-library record whose \<open>getMessage()\<close> returns:
  if the record's level name is in the level registry, \<open>emit\<close> re-emits the record at
  the level of that name; if the lookup raises \<open>ValueError\<close>, \<open>emit\<close> catches it and,
  when the record's numeric level is not negative, re-emits the record at that numeric
  level. In both cases \<open>emit\<close> returns normally, and the call carries the record's
  message, exception information and logger name, the current trace id and the depth
  of the first frame outside the logging module.
\<close>

theorem emit_reemits:
  "lr_getMessage r = Inr msg \<Longrightarrow>
   lr_levelname r \<in> lv_name ` set reg \<or> 0 \<le> lr_levelno r \<Longrightarrow>
     emit reg hs logging_file frames u r ctx =
       (Inr \<lparr>lc_level = (if lr_levelname r \<in> lv_name ` set reg
                          then LevelName (lr_levelname r) else LevelNo (lr_levelno r)),
             lc_depth = 2 + length (takeWhile (\<lambda>f. f = logging_file) frames),
             lc_exception = lr_exc_info r,
             lc_trace_id = fst (get_trace_id u ctx),
             lc_name = lr_name r,
             lc_message = msg\<rparr>,
        snd (get_trace_id u ctx))"
proof -
  assume m: "lr_getMessage r = Inr msg"
    and ok: "lr_levelname r \<in> lv_name ` set reg \<or> 0 \<le> lr_levelno r"
  show ?thesis
  proof (cases "lr_levelname r \<in> lv_name ` set reg")
    case True
    from level_found [OF True] obtain l
      where l: "loguru_level_of reg (lr_levelname r) = Inr l" "lv_name l = lr_levelname r"
      by blast
    then have "loguru_log reg hs (LevelName (lr_levelname r)) = Inr ()"
      by (simp add: loguru_log_def)
    with True l m show ?thesis
      by (simp add: emit_def caller_depth_eq Let_def split: prod.splits)
  next
    case False
    with ok have "0 \<le> lr_levelno r" by simp
    then have "loguru_log reg hs (LevelNo (lr_levelno r)) = Inr ()"
      by (simp add: loguru_log_def)
    with False level_missing [OF False] m show ?thesis
      by (simp add: emit_def caller_depth_eq Let_def split: prod.splits)
  qed
qed

theorem emit_reemits_witness:
  "lr_getMessage (example_log_record ''INFO'' 20 (Inr ''started'')) = Inr ''started''
   \<and> lr_levelname (example_log_record ''INFO'' 20 (Inr ''started'')) \<in> lv_name ` set default_levels
   \<and> emit default_levels [get_sink_config (ConsoleAdapter ''DEBUG'' True)]
        ''logging/__init__.py'' [''logging/__init__.py'', ''app.py''] 0
        (example_log_record ''INFO'' 20 (Inr ''started'')) ''05556afc''
      = (Inr \<lparr>lc_level = LevelName ''INFO'', lc_depth = 3, lc_exception = None,
               lc_trace_id = ''05556afc'', lc_name = ''uvicorn'', lc_message = ''started''\<rparr>,
         ''05556afc'')
   \<and> lr_getMessage (example_log_record ''Level 15'' 15 (Inr ''started'')) = Inr ''started''
   \<and> lr_levelname (example_log_record ''Level 15'' 15 (Inr ''started''))
        \<notin> lv_name ` set default_levels
   \<and> 0 \<le> lr_levelno (example_log_record ''Level 15'' 15 (Inr ''started''))
   \<and> emit default_levels [get_sink_config (ConsoleAdapter ''DEBUG'' True)]
        ''logging/__init__.py'' [''logging/__init__.py'', ''app.py''] 0
        (example_log_record ''Level 15'' 15 (Inr ''started'')) ''05556afc''
      = (Inr \<lparr>lc_level = LevelNo 15, lc_depth = 3, lc_exception = None,
               lc_trace_id = ''05556afc'', lc_name = ''uvicorn'', lc_message = ''started''\<rparr>,
         ''05556afc'')"
proof -
  have m1: "lr_getMessage (example_log_record ''INFO'' 20 (Inr ''started'')) = Inr ''started''"
    by (simp add: example_log_record_def)
  have n1: "lr_levelname (example_log_record ''INFO'' 20 (Inr ''started''))
      \<in> lv_name ` set default_levels"
    by (simp add: example_log_record_def default_levels_def)
  have m2: "lr_getMessage (example_log_record ''Level 15'' 15 (Inr ''started'')) = Inr ''started''"
    by (simp add: example_log_record_def)
  have n2: "lr_levelname (example_log_record ''Level 15'' 15 (Inr ''started''))
      \<notin> lv_name ` set default_levels"
    by (simp add: example_log_record_def default_levels_def)
  have p2: "0 \<le> lr_levelno (example_log_record ''Level 15'' 15 (Inr ''started''))"
    by (simp add: example_log_record_def)
  have g: "get_trace_id 0 ''05556afc'' = (''05556afc'', ''05556afc'')"
    by (simp add: get_trace_id_def)
  note e1 = emit_reemits [OF m1 disjI1 [OF n1], of "[get_sink_config (ConsoleAdapter ''DEBUG'' True)]"
      "''logging/__init__.py''" "[''logging/__init__.py'', ''app.py'']" 0 "''05556afc''"]
  note e2 = emit_reemits [OF m2 disjI2 [OF p2], of default_levels
      "[get_sink_config (ConsoleAdapter ''DEBUG'' True)]"
      "''logging/__init__.py''" "[''logging/__init__.py'', ''app.py'']" 0 "''05556afc''"]
  have c1: "emit default_levels [get_sink_config (ConsoleAdapter ''DEBUG'' True)]
        ''logging/__init__.py'' [''logging/__init__.py'', ''app.py''] 0
        (example_log_record ''INFO'' 20 (Inr ''started'')) ''05556afc''
      = (Inr \<lparr>lc_level = LevelName ''INFO'', lc_depth = 3, lc_exception = None,
               lc_trace_id = ''05556afc'', lc_name = ''uvicorn'', lc_message = ''started''\<rparr>,
         ''05556afc'')"
    using e1 n1 by (simp add: g example_log_record_def)
  have c2: "emit default_levels [get_sink_config (ConsoleAdapter ''DEBUG'' True)]
        ''logging/__init__.py'' [''logging/__init__.py'', ''app.py''] 0
        (example_log_record ''Level 15'' 15 (Inr ''started'')) ''05556afc''
      = (Inr \<lparr>lc_level = LevelNo 15, lc_depth = 3, lc_exception = None,
               lc_trace_id = ''05556afc'', lc_name = ''uvicorn'', lc_message = ''started''\<rparr>,
         ''05556afc'')"
    using e2 n2 by (simp add: g example_log_record_def)
  show ?thesis
    by (intro conjI) (rule m1 n1 c1 m2 n2 p2 c2)+
qed

text \<open>
  Neither restriction can be dropped. With a handler installed, a record whose
  unregistered level name sends \<open>emit\<close> to the numeric level \<open>-5\<close> makes the final
  \<open>log\<close> call raise \<open>ValueError\<close>, and a record whose \<open>getMessage()\<close> raises makes
  \<open>emit\<close> raise that exception: the final statement is outside the \<open>try\<close>.
\<close>

theorem emit_counterexample:
  "fst (emit default_levels [get_sink_config (ConsoleAdapter ''DEBUG'' True)]
          ''logging/__init__.py'' [''logging/__init__.py'', ''app.py''] 0
          (example_log_record ''Level -5'' (- 5) (Inr ''started'')) ''05556afc'')
     = Inl ValueError
   \<and> fst (emit default_levels [get_sink_config (ConsoleAdapter ''DEBUG'' True)]
          ''logging/__init__.py'' [''logging/__init__.py'', ''app.py''] 0
          (example_log_record ''Level 15'' 15 (Inl TypeError)) ''05556afc'')
     = Inl TypeError"
  by (simp add: emit_def loguru_level_of_def default_levels_def example_log_record_def
      loguru_log_def get_trace_id_def Let_def)

section \<open>Boundary cases\<close>

text \<open>
  C9. On an unconfigured core, \<open>configure\<close> with an explicitly empty adapter list
  returns without an error and leaves the core configured with no adapter and no
  handler; the default console adapter at \<open>DEBUG\<close> is substituted only for an absent
  argument.
\<close>

theorem configure_empty_list:
  "\<not> configured s \<Longrightarrow>
     (case configure reg (Some []) s of (r, s') \<Rightarrow>
        r = Inr () \<and> is_configured s' \<and> get_adapters s' = [] \<and> handlers s' = [])
     \<and> get_adapters (snd (configure reg None s)) = [ConsoleAdapter ''DEBUG'' True]"
proof -
  assume h: "\<not> configured s"
  have 1: "configure reg (Some []) s = (Inr (), s\<lparr>adapters := [], handlers := [], configured := True\<rparr>)"
    using h by (simp add: configure_def loguru_remove_def)
  have 2: "get_adapters (snd (configure reg None s)) = [ConsoleAdapter ''DEBUG'' True]"
    using h adapters_add_sinks [of reg "[ConsoleAdapter ''DEBUG'' True]" "s\<lparr>adapters := [ConsoleAdapter ''DEBUG'' True], handlers := []\<rparr>"]
    by (auto simp: configure_def loguru_remove_def get_adapters_def Let_def split: prod.splits sum.splits)
  show ?thesis using 1 2 by (simp add: is_configured_def get_adapters_def)
qed

theorem configure_empty_list_witness:
  "\<not> configured initial_state
   \<and> ((case configure default_levels (Some []) initial_state of (r, s') \<Rightarrow>
        r = Inr () \<and> is_configured s' \<and> get_adapters s' = [] \<and> handlers s' = [])
     \<and> get_adapters (snd (configure default_levels None initial_state))
         = [ConsoleAdapter ''DEBUG'' True])"
proof -
  have h: "\<not> configured initial_state"
    by (simp add: initial_state_def)
  show ?thesis
    using h configure_empty_list [OF h, of default_levels] by (rule conjI)
qed

text \<open>
  C10. \<open>should_log\<close> returns a boolean when the adapter's level and the level argument
  are both, uppercased, among \<open>DEBUG\<close>, \<open>INFO\<close>, \<open>WARNING\<close>, \<open>ERROR\<close>, \<open>CRITICAL\<close>, and
  raises \<open>ValueError\<close> for every other pair. In particular it raises for \<open>TRACE\<close> and
  \<open>SUCCESS\<close>, which the cloud-schema formatter maps to \<open>DEBUG\<close> and \<open>INFO\<close>.
\<close>

theorem should_log_raises:
  "(py_upper (adapter_level a) \<in> set levels \<and> py_upper lvl \<in> set levels
      \<longrightarrow> (\<exists>b. should_log a lvl = Inr b))
   \<and> (\<not> (py_upper (adapter_level a) \<in> set levels \<and> py_upper lvl \<in> set levels)
      \<longrightarrow> should_log a lvl = Inl ValueError)
   \<and> should_log a ''TRACE'' = Inl ValueError
   \<and> should_log a ''SUCCESS'' = Inl ValueError
   \<and> dict_get level_map ''TRACE'' ''INFO'' = ''DEBUG''
   \<and> dict_get level_map ''SUCCESS'' ''INFO'' = ''INFO''"
proof -
  have t: "py_upper ''TRACE'' \<notin> set levels" by code_simp
  have u: "py_upper ''SUCCESS'' \<notin> set levels" by code_simp
  have m: "dict_get level_map ''TRACE'' ''INFO'' = ''DEBUG''"
      "dict_get level_map ''SUCCESS'' ''INFO'' = ''INFO''"
    by (simp_all add: dict_get_def level_map_def)
  show ?thesis
    using should_log_result [of a lvl] should_log_result [of a "''TRACE''"]
      should_log_result [of a "''SUCCESS''"] t u m
    by blast
qed

theorem should_log_raises_witness:
  "\<not> (py_upper (adapter_level (GCPAdapter ''DEBUG'' None)) \<in> set levels
        \<and> py_upper ''TRACE'' \<in> set levels)
   \<and> should_log (GCPAdapter ''DEBUG'' None) ''TRACE'' = Inl ValueError
   \<and> py_upper (adapter_level (GCPAdapter ''info'' None)) \<in> set levels
   \<and> py_upper ''Error'' \<in> set levels
   \<and> (\<exists>b. should_log (GCPAdapter ''info'' None) ''Error'' = Inr b)"
proof -
  have a: "\<not> (py_upper (adapter_level (GCPAdapter ''DEBUG'' None)) \<in> set levels
        \<and> py_upper ''TRACE'' \<in> set levels)"
    by code_simp
  have b: "py_upper (adapter_level (GCPAdapter ''info'' None)) \<in> set levels
        \<and> py_upper ''Error'' \<in> set levels"
    by code_simp
  show ?thesis
    using a b should_log_raises [of "GCPAdapter ''DEBUG'' None" "''TRACE''"]
      should_log_raises [of "GCPAdapter ''info'' None" "''Error''"]
    by blast
qed

end
